theory Spec2Isabelle
  imports Main "HOL-Library.Word"
begin

unbundle bit_operations_syntax

section \<open>Port-mapped I/O\<close>

text \<open>
  \<open>readport\<close> and \<open>writeport\<close> are \<open>inb\<close> and \<open>outb\<close> (or the vendor DLL's entry
  points): a port number is an \<open>unsigned short\<close>, a value an \<open>unsigned char\<close>.
  The hardware behind them is part of the state. \<open>regs\<close> holds what each register
  currently reads as; \<open>latch\<close> gives, per register, the bits the hardware stores when
  written (a bit outside the mask keeps its value, as the direction bit of a port
  without bidirectional support does); \<open>outb_log\<close> records every \<open>outb\<close> issued, oldest
  first. The remaining fields are the Python side: the Pin objects, the pin pointer of
  each DigitalInOut object, and the interpreter's error indicator.
\<close>

datatype error =
  ValueError string | AttributeError string | TypeError string | OverflowError string

datatype port_dir_t = PORT_DIR_FORWARD | PORT_DIR_REVERSE

text \<open>
  Modelled from the spec: \<open>hardware/Pin.h\<close>, which declares \<open>PinObject\<close>, is not among
  the sources. The fields are the ones \<open>DigitalInOut.c\<close> reads and writes, typed as the
  spec's Pin record types them; \<open>pull_mode_t\<close> and \<open>drive_mode_t\<close> are C enums, stored
  in 32 bits, and are kept as the 32-bit values they are.
\<close>

record PinObject =
  reg_addr :: "16 word"
  bit_index :: "8 word"
  direction :: port_dir_t
  pull :: "32 word"
  drive_mode :: "32 word"
  input_allowed :: bool
  output_allowed :: bool
  propagate_dir :: bool
  in_use :: bool

record world =
  regs :: "16 word \<Rightarrow> 8 word"
  latch :: "16 word \<Rightarrow> 8 word"
  outb_log :: "(16 word \<times> 8 word) list"
  pin_heap :: "nat \<Rightarrow> PinObject"
  dio_heap :: "nat \<Rightarrow> nat"
  err_indicator :: "error option"

definition readport :: "16 word \<Rightarrow> world \<Rightarrow> 8 word" where
  "readport PORT s = regs s PORT"

definition writeport :: "16 word \<Rightarrow> 8 word \<Rightarrow> world \<Rightarrow> world" where
  "writeport PORT VALUE s =
     s\<lparr>regs := (regs s)(PORT := (VALUE AND latch s PORT) OR (regs s PORT AND NOT (latch s PORT))),
       outb_log := outb_log s @ [(PORT, VALUE)]\<rparr>"

definition PyErr_SetString :: "error \<Rightarrow> world \<Rightarrow> world" where
  "PyErr_SetString e s = s\<lparr>err_indicator := Some e\<rparr>"

text \<open>
  \<open>PyLong_AsLong\<close> on a Python integer: the value itself when it fits a C \<open>long\<close>
  (64 bits, as on the Linux and BSD targets of \<open>sys/io.h\<close>), otherwise -1 with
  \<open>OverflowError\<close> set. The C code never tests for the error and goes on with the -1.
\<close>

definition fits_long :: "int \<Rightarrow> bool" where
  "fits_long v = (- (2 ^ 63) \<le> v \<and> v < 2 ^ 63)"

definition PyLong_AsLong :: "int \<Rightarrow> world \<Rightarrow> int \<times> world" where
  "PyLong_AsLong v s =
     (if fits_long v then (v, s)
      else (- 1, PyErr_SetString (OverflowError ''Python int too large to convert to C long'') s))"

subsection \<open>Register addresses and bit macros\<close>

text \<open>
  The address macros add in \<open>int\<close>; the sum becomes an \<open>unsigned short\<close> again when it
  is passed to \<open>inb\<close>/\<open>outb\<close>, which is addition on 16-bit words.
\<close>

definition SPP_DATA_ADDR :: "16 word \<Rightarrow> 16 word" where
  "SPP_DATA_ADDR ADDRESS = ADDRESS"

definition SPP_STATUS_ADDR :: "16 word \<Rightarrow> 16 word" where
  "SPP_STATUS_ADDR ADDRESS = ADDRESS + 1"

definition SPP_CONTROL_ADDR :: "16 word \<Rightarrow> 16 word" where
  "SPP_CONTROL_ADDR ADDRESS = ADDRESS + 2"

text \<open>
  The bit macros work on operands promoted to \<open>int\<close>, so they are functions on \<open>int\<close>
  here (two's complement, as \<open>NOT\<close>, \<open>AND\<close> and \<open>OR\<close> on \<open>int\<close> are); the result is cut
  to eight bits with \<open>word_of_int\<close> where the C assigns it to a \<open>uint8_t\<close> or passes
  it to \<open>outb\<close>. A shift count of 31 or more is undefined in C; here \<open>push_bit\<close> just
  keeps shifting, and nothing below relies on it.
\<close>

definition P64_CHECKBITS_UINT8 :: "int \<Rightarrow> int \<Rightarrow> nat \<Rightarrow> int" where
  "P64_CHECKBITS_UINT8 VALUE BITMASK BITINDEX = (push_bit BITINDEX BITMASK) AND VALUE"

definition P64_CHECKBIT_UINT8 :: "int \<Rightarrow> nat \<Rightarrow> int" where
  "P64_CHECKBIT_UINT8 VALUE BITINDEX = P64_CHECKBITS_UINT8 VALUE 1 BITINDEX"

definition P64_CHECKBIT_SHIFT :: "int \<Rightarrow> nat \<Rightarrow> int" where
  "P64_CHECKBIT_SHIFT VALUE BITINDEX = drop_bit BITINDEX (P64_CHECKBITS_UINT8 VALUE 1 BITINDEX)"

definition P64_SETBITS_OFF :: "int \<Rightarrow> int \<Rightarrow> nat \<Rightarrow> int" where
  "P64_SETBITS_OFF VALUE BITMASK BITINDEX = NOT (push_bit BITINDEX BITMASK) AND VALUE"

definition P64_SETBITS_ON :: "int \<Rightarrow> int \<Rightarrow> nat \<Rightarrow> int" where
  "P64_SETBITS_ON VALUE BITMASK BITINDEX = (push_bit BITINDEX BITMASK) OR VALUE"

definition P64_SETBITS :: "int \<Rightarrow> int \<Rightarrow> nat \<Rightarrow> int \<Rightarrow> int" where
  "P64_SETBITS VALUE BITMASK BITINDEX SETTING =
     (if SETTING \<noteq> 0 then P64_SETBITS_ON VALUE BITMASK BITINDEX
      else P64_SETBITS_OFF VALUE BITMASK BITINDEX)"

definition P64_SETBIT :: "int \<Rightarrow> nat \<Rightarrow> int \<Rightarrow> int" where
  "P64_SETBIT VALUE BITINDEX SETTING = P64_SETBITS VALUE 1 BITINDEX SETTING"

definition DIRECTION_BITINDEX :: nat where
  "DIRECTION_BITINDEX = 5"

subsection \<open>The C enum \<open>port_dir_t\<close> as an integer\<close>

fun port_dir_int :: "port_dir_t \<Rightarrow> int" where
  "port_dir_int PORT_DIR_FORWARD = 0"
| "port_dir_int PORT_DIR_REVERSE = 1"

text \<open>
  The cast \<open>(port_dir_t)\<close>. Every integer the code casts and then uses as a direction is
  0 or 1: a shifted single bit, the result of \<open>!\<close>, or the result of \<open>==\<close>.
\<close>

definition port_dir_of :: "int \<Rightarrow> port_dir_t" where
  "port_dir_of i = (if i = 0 then PORT_DIR_FORWARD else PORT_DIR_REVERSE)"

text \<open>The C operators \<open>!\<close> and \<open>==\<close>, whose result is the \<open>int\<close> 0 or 1.\<close>

definition c_not :: "int \<Rightarrow> int" where
  "c_not x = (if x = 0 then 1 else 0)"

definition c_eq :: "int \<Rightarrow> int \<Rightarrow> int" where
  "c_eq x y = (if x = y then 1 else 0)"

section \<open>Port direction (\<open>portio.h\<close>)\<close>

definition portio_get_port_direction :: "16 word \<Rightarrow> world \<Rightarrow> port_dir_t" where
  "portio_get_port_direction spp_base_addr s =
     (let control_byte = sint (readport (SPP_CONTROL_ADDR spp_base_addr) s);
          direction_byte = (word_of_int (P64_CHECKBIT_SHIFT control_byte DIRECTION_BITINDEX) :: 8 word)
      in port_dir_of (uint direction_byte))"

definition portio_set_port_direction :: "16 word \<Rightarrow> port_dir_t \<Rightarrow> world \<Rightarrow> world" where
  "portio_set_port_direction spp_base_addr dir s =
     (let new_direction_byte =
            (word_of_int (P64_SETBIT (port_dir_int dir) DIRECTION_BITINDEX (port_dir_int dir)) :: 8 word)
      in writeport (SPP_CONTROL_ADDR spp_base_addr) new_direction_byte s)"

definition portio_test_bidirectionality :: "16 word \<Rightarrow> world \<Rightarrow> bool \<times> world" where
  "portio_test_bidirectionality spp_base_addr s =
     (let dir = portio_get_port_direction spp_base_addr s;
          s1 = portio_set_port_direction spp_base_addr PORT_DIR_REVERSE s;
          is_bidir = (portio_get_port_direction spp_base_addr s1 = PORT_DIR_REVERSE);
          s2 = (if is_bidir \<and> dir = PORT_DIR_FORWARD
                then portio_set_port_direction spp_base_addr PORT_DIR_FORWARD s1 else s1)
      in (is_bidir, s2))"

definition portio_reset_control_pins :: "16 word \<Rightarrow> bool \<Rightarrow> world \<Rightarrow> world" where
  "portio_reset_control_pins spp_base_addr is_bidir s =
     (let control_byte = readport (SPP_CONTROL_ADDR spp_base_addr) s;
          bidir_control_byte = (word_of_int (P64_SETBIT 0xF0 DIRECTION_BITINDEX (of_bool is_bidir)) :: 8 word);
          pre_control_byte = bidir_control_byte OR control_byte;
          new_control_byte = (word_of_int (push_bit 2 1 OR uint pre_control_byte) :: 8 word)
      in writeport (SPP_CONTROL_ADDR spp_base_addr) new_control_byte s)"

section \<open>Python objects crossing the boundary\<close>

text \<open>
  A member of a Python enum is identified by the module and class it belongs to and by
  its \<open>value\<close> attribute, which is all the C code reads of it
  (\<open>PyLong_AsLong(PyObject_GetAttrString(value, "value"))\<close>).
\<close>

datatype py_enum = Py_Enum (enum_module: string) (enum_class: string) (enum_value: int)

datatype pyobj = Py_None | Py_Bool bool | Py_Member py_enum

text \<open>
  Modelled from the spec: \<open>helper/enumfactory.h\<close> is not among the sources. The spec
  describes the pattern as an attribute lookup on a module for enum construction, and
  \<open>StandardPort_get_direction\<close> does it by hand,
  \<open>PyObject_CallFunction(direnum, "(i)", direction_byte)\<close>: the enum class is looked up by
  name in the module and called with the integer, which gives the member of that value.
\<close>

definition generate_enum :: "string \<Rightarrow> string \<Rightarrow> int \<Rightarrow> pyobj" where
  "generate_enum module_name enum_name v = Py_Member (Py_Enum module_name enum_name v)"

text \<open>
  Modelled from the spec: the Python module \<open>parallel64.constants\<close> is not among the
  sources; the spec gives \<open>Direction{FORWARD=0, REVERSE=1}\<close>, the values of \<open>port_dir_t\<close>.
\<close>

definition constants_Direction :: "port_dir_t \<Rightarrow> py_enum" where
  "constants_Direction d = Py_Enum ''parallel64.constants'' ''Direction'' (port_dir_int d)"

text \<open>
  Modelled from the spec: the Python module \<open>parallel64.digitalio\<close> is not among the
  sources. The values of its \<open>Direction\<close> are fixed by the C code all the same:
  \<open>DigitalInOut_get_direction\<close> builds the member from \<open>direction == 0\<close>, so an output
  pin (\<open>PORT_DIR_FORWARD\<close>, the direction \<open>DigitalInOut_set_value\<close> asks for) reads as the
  member of value 1 and an input pin as the member of value 0. \<open>DriveMode\<close> takes the
  values in the order the spec lists them.
\<close>

definition Direction_INPUT :: py_enum where
  "Direction_INPUT = Py_Enum ''parallel64.digitalio'' ''Direction'' 0"

definition Direction_OUTPUT :: py_enum where
  "Direction_OUTPUT = Py_Enum ''parallel64.digitalio'' ''Direction'' 1"

definition DriveMode_PUSH_PULL :: py_enum where
  "DriveMode_PUSH_PULL = Py_Enum ''parallel64.digitalio'' ''DriveMode'' 0"

definition DriveMode_OPEN_DRAIN :: py_enum where
  "DriveMode_OPEN_DRAIN = Py_Enum ''parallel64.digitalio'' ''DriveMode'' 1"

text \<open>
  Modelled from the spec: \<open>pull_mode_t\<close> is declared in \<open>hardware/Pin.h\<close>, which is not
  among the sources; its enumerators take the order in which the spec lists them,
  \<open>{NONE, UP, DOWN}\<close>.
\<close>

definition PULL_NONE :: "32 word" where
  "PULL_NONE = 0"

definition PULL_UP :: "32 word" where
  "PULL_UP = 1"

definition PULL_DOWN :: "32 word" where
  "PULL_DOWN = 2"

section \<open>StandardPort (\<open>StandardPort.c\<close>)\<close>

record StandardPortObject =
  spp_address :: "16 word"

definition SPPCONTROL :: "16 word \<Rightarrow> 16 word" where
  "SPPCONTROL ADDRESS = ADDRESS + 2"

definition StandardPort_get_direction :: "StandardPortObject \<Rightarrow> world \<Rightarrow> pyobj" where
  "StandardPort_get_direction self s =
     (let spp_base_addr = spp_address self;
          control_byte = sint (readport (SPPCONTROL spp_base_addr) s);
          direction_byte = (word_of_int (drop_bit 5 (push_bit 5 1 AND control_byte)) :: 8 word)
      in Py_Member (Py_Enum ''parallel64.constants'' ''Direction'' (uint direction_byte)))"

definition StandardPort_set_direction :: "StandardPortObject \<Rightarrow> py_enum \<Rightarrow> world \<Rightarrow> int \<times> world" where
  "StandardPort_set_direction self v s =
     (let spp_base_addr = spp_address self;
          dirobjvalue = PyLong_AsLong (enum_value v) s;
          dirvalue = (word_of_int (fst dirobjvalue) :: 8 word);
          dirvalue2 = (if dirvalue = 0
                       then (word_of_int (NOT (push_bit 5 1) AND uint dirvalue) :: 8 word)
                       else (word_of_int (push_bit 5 1 OR uint dirvalue) :: 8 word))
      in (0, writeport (SPPCONTROL spp_base_addr) dirvalue2 (snd dirobjvalue)))"

section \<open>DigitalInOut (\<open>DigitalInOut.c\<close>)\<close>

text \<open>
  \<open>DigitalInOut.c\<close> takes the bit macros, \<open>readport\<close>, \<open>writeport\<close> and
  \<open>portio_set_port_direction\<close> from \<open>portio.h\<close>; both versions of that header expand to
  the definitions above. Setters return the C return code and the new state; a getter
  returns \<open>None\<close> for \<open>NULL\<close>. A primed name is the C local of that name, where a
  record field has the name already. Where a setter reads \<open>value.value\<close>, the local
  \<open>dirobjvalue\<close> (\<open>pullobjvalue\<close>, \<open>dmobjvalue\<close>) holds what \<open>PyLong_AsLong\<close> returned:
  the \<open>long\<close> and the state; the cast to the enum type keeps its low 32 bits.

  Modelled from the spec: \<open>DigitalInOut.h\<close>, which declares \<open>DigitalInOutObject\<close> and the
  macro \<open>DIGINOUT_PIN\<close>, is not among the sources. A DigitalInOut references exactly one
  Pin, \<open>self->pin\<close> in the C code, and \<open>DIGINOUT_PIN(self)\<close> is that Pin object. Pin
  objects live in \<open>pin_heap\<close>, so two DigitalInOut objects bound to one Pin share it.
  Reference counts are left out.
\<close>

definition DIGINOUT_PIN :: "world \<Rightarrow> nat \<Rightarrow> PinObject" where
  "DIGINOUT_PIN s self = pin_heap s (dio_heap s self)"

text \<open>
  The \<open>pin\<close> argument of the constructor, once \<open>PyArg_ParseTupleAndKeywords\<close> has
  delivered it: a Pin instance (\<open>PyObject_IsInstance\<close> holds), or any other object.
\<close>

datatype pyarg = Pin_instance nat | Other_object

definition DigitalInOut_init :: "nat \<Rightarrow> pyarg \<Rightarrow> world \<Rightarrow> int \<times> world" where
  "DigitalInOut_init self pin s =
     (case pin of
        Other_object \<Rightarrow>
          (- 1, PyErr_SetString (TypeError ''`pin` must be an instance of parallel64.hardware.Pin'') s)
      | Pin_instance p \<Rightarrow>
          (0, s\<lparr>pin_heap := (pin_heap s)(p := (pin_heap s p)\<lparr>in_use := True\<rparr>),
                dio_heap := (dio_heap s)(self := p)\<rparr>))"

definition DigitalInOut_get_direction :: "nat \<Rightarrow> world \<Rightarrow> pyobj option \<times> world" where
  "DigitalInOut_get_direction self s =
     (Some (generate_enum ''parallel64.digitalio'' ''Direction''
              (c_eq (port_dir_int (direction (DIGINOUT_PIN s self))) 0)), s)"

definition DigitalInOut_get_pull :: "nat \<Rightarrow> world \<Rightarrow> pyobj option \<times> world" where
  "DigitalInOut_get_pull self s =
     (if direction (DIGINOUT_PIN s self) = PORT_DIR_FORWARD
      then (None, PyErr_SetString (AttributeError ''Not an input'') s)
      else if pull (DIGINOUT_PIN s self) = PULL_NONE then (Some Py_None, s)
      else (Some (generate_enum ''parallel64.digitalio'' ''Pull''
                    (c_not (uint (pull (DIGINOUT_PIN s self))))), s))"

definition DigitalInOut_get_drivemode :: "nat \<Rightarrow> world \<Rightarrow> pyobj option \<times> world" where
  "DigitalInOut_get_drivemode self s =
     (if direction (DIGINOUT_PIN s self) = PORT_DIR_REVERSE
      then (None, PyErr_SetString (AttributeError ''Not an output'') s)
      else (Some (generate_enum ''parallel64.digitalio'' ''DriveMode''
                    (uint (drive_mode (DIGINOUT_PIN s self)))), s))"

definition DigitalInOut_get_value :: "nat \<Rightarrow> world \<Rightarrow> pyobj option \<times> world" where
  "DigitalInOut_get_value self s =
     (let reg_value = readport (reg_addr (DIGINOUT_PIN s self)) s;
          bit_value = (P64_CHECKBIT_UINT8 (uint reg_value) (unat (bit_index (DIGINOUT_PIN s self))) \<noteq> 0)
      in (Some (Py_Bool bit_value), s))"

definition DigitalInOut_set_direction :: "nat \<Rightarrow> py_enum \<Rightarrow> world \<Rightarrow> int \<times> world" where
  "DigitalInOut_set_direction self v s =
     (let reg_addr' = reg_addr (DIGINOUT_PIN s self);
          dirobjvalue = PyLong_AsLong (enum_value v) s;
          s0 = snd dirobjvalue;
          dirvalue = c_not (uint (word_of_int (fst dirobjvalue) :: 32 word))
      in if dirvalue = 0 \<and> \<not> output_allowed (DIGINOUT_PIN s0 self)
         then (- 1, PyErr_SetString (ValueError ''The pin cannot be use as an input'') s0)
         else if dirvalue = 1 \<and> \<not> input_allowed (DIGINOUT_PIN s0 self)
         then (- 1, PyErr_SetString (ValueError ''The pin cannot be use as an output'') s0)
         else
           (let s1 = (if propagate_dir (DIGINOUT_PIN s0 self)
                      then portio_set_port_direction reg_addr' (port_dir_of (c_eq dirvalue 0)) s0
                      else s0)
            in (0, s1\<lparr>pin_heap := (pin_heap s1)(dio_heap s1 self :=
                        (DIGINOUT_PIN s1 self)\<lparr>direction := port_dir_of dirvalue\<rparr>)\<rparr>)))"

definition DigitalInOut_set_pull :: "nat \<Rightarrow> py_enum option \<Rightarrow> world \<Rightarrow> int \<times> world" where
  "DigitalInOut_set_pull self v s =
     (let current_dir = direction (DIGINOUT_PIN s self)
      in if current_dir \<noteq> PORT_DIR_REVERSE
         then (- 1, PyErr_SetString (AttributeError ''Not an input'') s)
         else
           (let pull' = pull (DIGINOUT_PIN s self);
                pullobjvalue = (case v of None \<Rightarrow> (uint PULL_NONE, s)
                                | Some e \<Rightarrow> PyLong_AsLong (enum_value e) s);
                s0 = snd pullobjvalue;
                pullvalue = (word_of_int (fst pullobjvalue) :: 32 word)
            in if pullvalue \<noteq> pull'
               then (- 1, PyErr_SetString
                            (ValueError ''Pin pull modes cannot be changed from their default'') s0)
               else (0, s0)))"

definition DigitalInOut_set_drivemode :: "nat \<Rightarrow> py_enum \<Rightarrow> world \<Rightarrow> int \<times> world" where
  "DigitalInOut_set_drivemode self v s =
     (let drive_mode' = drive_mode (DIGINOUT_PIN s self);
          dmobjvalue = PyLong_AsLong (enum_value v) s;
          s0 = snd dmobjvalue;
          dmvalue = (word_of_int (fst dmobjvalue) :: 32 word)
      in if dmvalue \<noteq> drive_mode'
         then (- 1, PyErr_SetString
                      (ValueError ''Pin drive modes cannot be changed from their default'') s0)
         else (0, s0))"

text \<open>The argument \<open>pinvalue\<close> is \<open>PyObject_IsTrue(value)\<close>.\<close>

definition DigitalInOut_set_value :: "nat \<Rightarrow> bool \<Rightarrow> world \<Rightarrow> int \<times> world" where
  "DigitalInOut_set_value self pinvalue s =
     (let current_dir = direction (DIGINOUT_PIN s self)
      in if current_dir \<noteq> PORT_DIR_FORWARD
         then (- 1, PyErr_SetString (AttributeError ''Not an output'') s)
         else
           (let reg_addr' = reg_addr (DIGINOUT_PIN s self);
                bit_index' = bit_index (DIGINOUT_PIN s self);
                current_value = readport reg_addr' s
            in (0, writeport reg_addr'
                     (word_of_int (P64_SETBIT (uint current_value) (unat bit_index') (of_bool pinvalue)))
                     s)))"


definition GPIO_switch_to_input :: "nat \<Rightarrow> py_enum option \<Rightarrow> world \<Rightarrow> pyobj option \<times> world" where
  "GPIO_switch_to_input self pull' s =
     (let s1 = snd (DigitalInOut_set_direction self Direction_INPUT s);
          s2 = snd (DigitalInOut_set_pull self pull' s1)
      in (Some Py_None, s2))"

section \<open>A sample port\<close>

text \<open>
  A port at base address \<open>0x378\<close> whose registers all read 0 and store every bit
  written, one Pin object for all heap cells, and one DigitalInOut bound to it.
\<close>

definition sample_pin :: PinObject where
  "sample_pin = \<lparr>reg_addr = 0x378, bit_index = 0, direction = PORT_DIR_REVERSE,
     pull = PULL_NONE, drive_mode = 0, input_allowed = True, output_allowed = True,
     propagate_dir = True, in_use = True\<rparr>"

definition sample_world :: "PinObject \<Rightarrow> world" where
  "sample_world p = \<lparr>regs = (\<lambda>_. 0), latch = (\<lambda>_. 0xFF), outb_log = [],
     pin_heap = (\<lambda>_. p), dio_heap = (\<lambda>_. 0), err_indicator = None\<rparr>"

section \<open>Facts about the port-level functions\<close>

lemma checkbit_shift_sint:
  "P64_CHECKBIT_SHIFT (sint (w :: 8 word)) DIRECTION_BITINDEX = (if bit w 5 then 1 else 0)"
  unfolding P64_CHECKBIT_SHIFT_def P64_CHECKBITS_UINT8_def DIRECTION_BITINDEX_def
  by (rule bit_eqI) (auto simp add: bit_simps bit_sint_iff)

lemma get_port_direction_bit:
  "portio_get_port_direction b s =
     (if bit (regs s (b + 2)) 5 then PORT_DIR_REVERSE else PORT_DIR_FORWARD)"
  by (simp add: portio_get_port_direction_def readport_def SPP_CONTROL_ADDR_def
      checkbit_shift_sint port_dir_of_def)

lemma direction_byte:
  "(word_of_int (P64_SETBIT (port_dir_int d) DIRECTION_BITINDEX (port_dir_int d)) :: 8 word)
     = (case d of PORT_DIR_FORWARD \<Rightarrow> 0x00 | PORT_DIR_REVERSE \<Rightarrow> 0x21)"
  by (cases d)
    (simp_all add: P64_SETBIT_def P64_SETBITS_def P64_SETBITS_ON_def P64_SETBITS_OFF_def
      DIRECTION_BITINDEX_def)

lemma set_port_direction_writeport:
  "portio_set_port_direction b d s =
     writeport (b + 2) (case d of PORT_DIR_FORWARD \<Rightarrow> 0x00 | PORT_DIR_REVERSE \<Rightarrow> 0x21) s"
  by (simp add: portio_set_port_direction_def direction_byte SPP_CONTROL_ADDR_def)

lemma bit_regs_writeport:
  "bit (regs (writeport a v s) a) n = (if bit (latch s a) n then bit v n else bit (regs s a) n)"
  by (auto simp add: writeport_def bit_simps dest: bit_imp_le_length)

lemma latch_writeport: "latch (writeport a v s) = latch s"
  by (simp add: writeport_def)

text \<open>
  C2. Whatever the control register holds and whichever of its bits the hardware stores,
  the direction read back after \<open>portio_test_bidirectionality\<close> is the direction read
  before it: FORWARD afterwards exactly when FORWARD before, whether or not the switch
  to REVERSE took effect.
\<close>

theorem test_bidirectionality_keeps_direction:
  "portio_get_port_direction base (snd (portio_test_bidirectionality base s))
     = portio_get_port_direction base s"
  by (simp add: portio_test_bidirectionality_def Let_def get_port_direction_bit
      set_port_direction_writeport bit_regs_writeport latch_writeport)

text \<open>
  C10. \<open>portio_set_port_direction\<close> issues one write, to the control register at base + 2,
  of a byte fixed by the direction alone: \<open>0x00\<close> for FORWARD and \<open>0x21\<close> for REVERSE,
  whatever the register held. \<open>StandardPort_set_direction\<close>, given the member of that
  direction, does the same to the whole state.
\<close>

theorem set_port_direction_byte:
  "outb_log (portio_set_port_direction base d s)
     = outb_log s @ [(base + 2, case d of PORT_DIR_FORWARD \<Rightarrow> 0x00 | PORT_DIR_REVERSE \<Rightarrow> 0x21)]
   \<and> snd (StandardPort_set_direction self (constants_Direction d) s)
     = portio_set_port_direction (spp_address self) d s"
  by (cases d)
    (simp_all add: set_port_direction_writeport writeport_def StandardPort_set_direction_def
      constants_Direction_def SPPCONTROL_def Let_def PyLong_AsLong_def fits_long_def)

section \<open>Facts about DigitalInOut\<close>

lemmas enum_defs =
  Direction_INPUT_def Direction_OUTPUT_def DriveMode_PUSH_PULL_def DriveMode_OPEN_DRAIN_def

lemmas sample_defs = sample_world_def sample_pin_def DIGINOUT_PIN_def PULL_NONE_def PULL_UP_def

lemmas as_long_defs = PyLong_AsLong_def fits_long_def

lemma setbit_word:
  "(word_of_int (P64_SETBIT (uint (w :: 8 word)) i (of_bool v)) :: 8 word)
     = (if v then set_bit i w else unset_bit i w)"
  unfolding P64_SETBIT_def P64_SETBITS_def P64_SETBITS_ON_def P64_SETBITS_OFF_def
  by (rule bit_eqI) (auto simp add: bit_simps)

lemma checkbit_word:
  "(P64_CHECKBIT_UINT8 (uint (w :: 8 word)) i \<noteq> 0) = bit w i"
proof -
  have "bit (uint w) i \<longleftrightarrow> uint w AND push_bit i 1 \<noteq> 0"
    by (rule bit_iff_and_push_bit_not_eq_0)
  then show ?thesis
    unfolding P64_CHECKBIT_UINT8_def P64_CHECKBITS_UINT8_def
    by (auto simp add: and.commute bit_uint_iff dest: bit_imp_le_length)
qed

subsection \<open>Direction\<close>

text \<open>
  What a permitted \<open>DigitalInOut_set_direction\<close> sends to the port when the pin
  propagates: \<open>dirvalue == 0\<close> is taken after \<open>dirvalue = !dirvalue\<close>, so OUTPUT reaches
  \<open>portio_set_port_direction\<close> as REVERSE and INPUT as FORWARD.
\<close>

lemma set_direction_propagates:
  assumes "d = Direction_OUTPUT \<or> d = Direction_INPUT"
    and "output_allowed (DIGINOUT_PIN s self)" and "input_allowed (DIGINOUT_PIN s self)"
    and "propagate_dir (DIGINOUT_PIN s self)"
  shows "outb_log (snd (DigitalInOut_set_direction self d s))
     = outb_log (portio_set_port_direction (reg_addr (DIGINOUT_PIN s self))
         (if d = Direction_OUTPUT then PORT_DIR_REVERSE else PORT_DIR_FORWARD) s)"
  using assms
  by (auto simp add: DigitalInOut_set_direction_def enum_defs as_long_defs c_not_def c_eq_def
      port_dir_of_def Let_def)

text \<open>
  C1, at a pin on register \<open>0x378\<close> that allows both directions and propagates: setting
  the direction to OUTPUT succeeds, and the write it issues is the one
  \<open>portio_set_port_direction\<close> issues for REVERSE, \<open>0x21\<close> to \<open>0x37A\<close>. The port then
  reads REVERSE while the pin records FORWARD.
\<close>

theorem set_direction_output_sets_port_reverse:
  "fst (DigitalInOut_set_direction 0 Direction_OUTPUT (sample_world sample_pin)) = 0
   \<and> outb_log (snd (DigitalInOut_set_direction 0 Direction_OUTPUT (sample_world sample_pin)))
     = outb_log (portio_set_port_direction 0x378 PORT_DIR_REVERSE (sample_world sample_pin))
   \<and> outb_log (snd (DigitalInOut_set_direction 0 Direction_OUTPUT (sample_world sample_pin)))
     = [(0x37A, 0x21)]
   \<and> portio_get_port_direction 0x378
       (snd (DigitalInOut_set_direction 0 Direction_OUTPUT (sample_world sample_pin)))
     = PORT_DIR_REVERSE
   \<and> direction (DIGINOUT_PIN
       (snd (DigitalInOut_set_direction 0 Direction_OUTPUT (sample_world sample_pin))) 0)
     = PORT_DIR_FORWARD"
  by (simp add: DigitalInOut_set_direction_def enum_defs as_long_defs c_not_def c_eq_def
      port_dir_of_def Let_def sample_defs portio_set_port_direction_def
      portio_get_port_direction_def
      P64_SETBIT_def P64_SETBITS_def P64_SETBITS_ON_def P64_SETBITS_OFF_def
      P64_CHECKBIT_SHIFT_def P64_CHECKBITS_UINT8_def DIRECTION_BITINDEX_def
      SPP_CONTROL_ADDR_def writeport_def readport_def)

text \<open>
  C3. \<open>DigitalInOut_set_direction\<close> with OUTPUT on a pin that does not allow output, or
  with INPUT on a pin that does not allow input, returns -1 with a \<open>ValueError\<close> set (the
  exception the C code raises for a direction the pin is not capable of); the Pin
  objects, and with them the recorded direction, are unchanged, and no register is
  written.
\<close>

theorem set_direction_refused:
  assumes "(d = Direction_OUTPUT \<and> \<not> output_allowed (DIGINOUT_PIN s self))
         \<or> (d = Direction_INPUT \<and> \<not> input_allowed (DIGINOUT_PIN s self))"
  shows "fst (DigitalInOut_set_direction self d s) = - 1
       \<and> (\<exists>msg. err_indicator (snd (DigitalInOut_set_direction self d s)) = Some (ValueError msg))
       \<and> pin_heap (snd (DigitalInOut_set_direction self d s)) = pin_heap s
       \<and> dio_heap (snd (DigitalInOut_set_direction self d s)) = dio_heap s
       \<and> outb_log (snd (DigitalInOut_set_direction self d s)) = outb_log s
       \<and> regs (snd (DigitalInOut_set_direction self d s)) = regs s"
  using assms
  by (auto simp add: DigitalInOut_set_direction_def enum_defs as_long_defs c_not_def
      PyErr_SetString_def Let_def)

theorem set_direction_refused_witness:
  "\<not> output_allowed (DIGINOUT_PIN (sample_world (sample_pin\<lparr>output_allowed := False\<rparr>)) 0)
   \<and> fst (DigitalInOut_set_direction 0 Direction_OUTPUT
          (sample_world (sample_pin\<lparr>output_allowed := False\<rparr>))) = - 1
   \<and> direction (DIGINOUT_PIN (snd (DigitalInOut_set_direction 0 Direction_OUTPUT
          (sample_world (sample_pin\<lparr>output_allowed := False\<rparr>)))) 0) = PORT_DIR_REVERSE
   \<and> outb_log (snd (DigitalInOut_set_direction 0 Direction_OUTPUT
          (sample_world (sample_pin\<lparr>output_allowed := False\<rparr>)))) = []"
  using set_direction_refused
    [of Direction_OUTPUT "sample_world (sample_pin\<lparr>output_allowed := False\<rparr>)" 0]
  by (simp add: sample_defs)

subsection \<open>Value\<close>

text \<open>
  C5. On a pin whose direction is OUTPUT (\<open>PORT_DIR_FORWARD\<close>), with a bit index below 8
  and on a register bit that the hardware stores, \<open>DigitalInOut_set_value\<close> succeeds and
  issues one write to the pin's register: the byte it read there with the pin's bit set
  to the value and every other bit as it was. \<open>DigitalInOut_get_value\<close> right after it
  returns the value.
\<close>

theorem set_value_read_modify_write:
  assumes "direction (DIGINOUT_PIN s self) = PORT_DIR_FORWARD"
    and "unat (bit_index (DIGINOUT_PIN s self)) < 8"
    and "bit (latch s (reg_addr (DIGINOUT_PIN s self))) (unat (bit_index (DIGINOUT_PIN s self)))"
  shows "fst (DigitalInOut_set_value self v s) = 0
       \<and> outb_log (snd (DigitalInOut_set_value self v s))
           = outb_log s @ [(reg_addr (DIGINOUT_PIN s self),
               if v then set_bit (unat (bit_index (DIGINOUT_PIN s self)))
                           (readport (reg_addr (DIGINOUT_PIN s self)) s)
               else unset_bit (unat (bit_index (DIGINOUT_PIN s self)))
                           (readport (reg_addr (DIGINOUT_PIN s self)) s))]
       \<and> fst (DigitalInOut_get_value self (snd (DigitalInOut_set_value self v s)))
           = Some (Py_Bool v)"
proof -
  let ?p = "DIGINOUT_PIN s self"
  let ?w = "if v then set_bit (unat (bit_index ?p)) (regs s (reg_addr ?p))
            else unset_bit (unat (bit_index ?p)) (regs s (reg_addr ?p))"
  have sv: "DigitalInOut_set_value self v s = (0, writeport (reg_addr ?p) ?w s)"
    using assms(1) by (simp add: DigitalInOut_set_value_def Let_def readport_def setbit_word)
  have pin: "DIGINOUT_PIN (writeport (reg_addr ?p) ?w s) self = ?p"
    by (simp add: DIGINOUT_PIN_def writeport_def)
  have "bit ?w (unat (bit_index ?p)) = v"
    using assms(2) by (simp add: bit_simps)
  then have "bit (regs (writeport (reg_addr ?p) ?w s) (reg_addr ?p)) (unat (bit_index ?p)) = v"
    using assms(3) by (simp only: bit_regs_writeport if_True)
  then have "fst (DigitalInOut_get_value self (writeport (reg_addr ?p) ?w s)) = Some (Py_Bool v)"
    by (simp add: DigitalInOut_get_value_def Let_def pin readport_def checkbit_word)
  with sv show ?thesis
    by (simp add: writeport_def readport_def)
qed

theorem set_value_read_modify_write_witness:
  "direction (DIGINOUT_PIN (sample_world (sample_pin\<lparr>direction := PORT_DIR_FORWARD\<rparr>)) 0)
       = PORT_DIR_FORWARD
   \<and> outb_log (snd (DigitalInOut_set_value 0 True
          (sample_world (sample_pin\<lparr>direction := PORT_DIR_FORWARD\<rparr>)))) = [(0x378, 1)]
   \<and> fst (DigitalInOut_get_value 0 (snd (DigitalInOut_set_value 0 True
          (sample_world (sample_pin\<lparr>direction := PORT_DIR_FORWARD\<rparr>))))) = Some (Py_Bool True)"
  using set_value_read_modify_write
    [of "sample_world (sample_pin\<lparr>direction := PORT_DIR_FORWARD\<rparr>)" 0 True]
  by (simp add: sample_defs readport_def)

subsection \<open>Resetting the control pins\<close>

lemma setbit_F0:
  "(word_of_int (P64_SETBIT 0xF0 DIRECTION_BITINDEX (of_bool b)) :: 8 word)
     = (if b then 0xF0 else 0xD0)"
  by (simp add: P64_SETBIT_def P64_SETBITS_def P64_SETBITS_ON_def P64_SETBITS_OFF_def
      DIRECTION_BITINDEX_def)

lemma reset_control_byte:
  "(word_of_int (push_bit 2 1 OR
      uint ((word_of_int (P64_SETBIT 0xF0 DIRECTION_BITINDEX (of_bool b)) :: 8 word) OR c)) :: 8 word)
     = c OR (if b then 0xF4 else 0xD4)"
proof -
  have hi: "(4::8 word) OR 0xF0 = 0xF4" and lo: "(4::8 word) OR 0xD0 = 0xD4"
    by simp_all
  have "(4::8 word) OR (0xF0 OR c) = c OR 0xF4"
    unfolding hi [symmetric] by (simp only: or.assoc or.commute or.left_commute)
  moreover have "(4::8 word) OR (0xD0 OR c) = c OR 0xD4"
    unfolding lo [symmetric] by (simp only: or.assoc or.commute or.left_commute)
  ultimately show ?thesis
    unfolding setbit_F0 by (simp add: of_int_or_eq)
qed

lemma reset_control_pins_writeport:
  "portio_reset_control_pins base is_bidir s =
     writeport (base + 2) (regs s (base + 2) OR (if is_bidir then 0xF4 else 0xD4)) s"
  unfolding portio_reset_control_pins_def Let_def reset_control_byte
  by (simp add: SPP_CONTROL_ADDR_def readport_def)

text \<open>
  C6, with \<open>is_bidir\<close> false on the port at \<open>0x378\<close>: a control register holding \<open>0x00\<close>
  is written \<open>0xD4\<close>, one holding \<open>0x0B\<close> is written \<open>0xDF\<close>, and one holding \<open>0x20\<close> is
  written \<open>0xF4\<close>. The low nibble of the byte follows what the register held, and bit 5
  stays set although \<open>is_bidir\<close> is false: the mask \<open>0b11110000\<close> is combined with the
  register by \<open>|\<close>, which can set bits and never clear one.
\<close>

theorem reset_control_pins_keeps_prior_bits:
  "outb_log (portio_reset_control_pins 0x378 False
       ((sample_world sample_pin)\<lparr>regs := (\<lambda>_. 0x00)\<rparr>)) = [(0x37A, 0xD4)]
   \<and> outb_log (portio_reset_control_pins 0x378 False
       ((sample_world sample_pin)\<lparr>regs := (\<lambda>_. 0x0B)\<rparr>)) = [(0x37A, 0xDF)]
   \<and> outb_log (portio_reset_control_pins 0x378 False
       ((sample_world sample_pin)\<lparr>regs := (\<lambda>_. 0x20)\<rparr>)) = [(0x37A, 0xF4)]
   \<and> portio_get_port_direction 0x378 (portio_reset_control_pins 0x378 False
       ((sample_world sample_pin)\<lparr>regs := (\<lambda>_. 0x20)\<rparr>)) = PORT_DIR_REVERSE"
  by (simp add: reset_control_pins_writeport get_port_direction_bit writeport_def
      sample_world_def bit_simps)

subsection \<open>Binding\<close>

text \<open>
  C4 as stated fails. \<open>DigitalInOut_init\<close> never reads \<open>in_use\<close>: on a Pin that the
  first DigitalInOut (object 0) has bound already, constructing object 1 returns 0 and
  sets no error.
\<close>

theorem init_on_bound_pin_counterexample:
  "in_use (DIGINOUT_PIN (sample_world sample_pin) 0)
   \<and> fst (DigitalInOut_init 1 (Pin_instance (dio_heap (sample_world sample_pin) 0))
          (sample_world sample_pin)) = 0
   \<and> err_indicator (snd (DigitalInOut_init 1 (Pin_instance (dio_heap (sample_world sample_pin) 0))
          (sample_world sample_pin))) = None"
  by (simp add: DigitalInOut_init_def sample_world_def sample_pin_def DIGINOUT_PIN_def)

text \<open>
  C4, amended. Constructing a second DigitalInOut over a Pin whose \<open>in_use\<close> is already
  true succeeds: it returns 0, raises nothing, and binds the new object to that Pin. The
  first object's pin reference and the fields of every Pin are as before.
\<close>

theorem init_on_bound_pin_succeeds:
  assumes "in_use (pin_heap s p)" and "dio_heap s first = p" and "second \<noteq> first"
  shows "fst (DigitalInOut_init second (Pin_instance p) s) = 0
       \<and> err_indicator (snd (DigitalInOut_init second (Pin_instance p) s)) = err_indicator s
       \<and> pin_heap (snd (DigitalInOut_init second (Pin_instance p) s)) = pin_heap s
       \<and> dio_heap (snd (DigitalInOut_init second (Pin_instance p) s)) first = p
       \<and> dio_heap (snd (DigitalInOut_init second (Pin_instance p) s)) second = p"
proof -
  have "(pin_heap s p)\<lparr>in_use := True\<rparr> = pin_heap s p"
    using assms(1) by (cases "pin_heap s p") simp
  then show ?thesis
    using assms(2,3) by (simp add: DigitalInOut_init_def)
qed

theorem init_on_bound_pin_succeeds_witness:
  "in_use (pin_heap (sample_world sample_pin) 0)
   \<and> fst (DigitalInOut_init 1 (Pin_instance 0) (sample_world sample_pin)) = 0
   \<and> err_indicator (snd (DigitalInOut_init 1 (Pin_instance 0) (sample_world sample_pin))) = None
   \<and> dio_heap (snd (DigitalInOut_init 1 (Pin_instance 0) (sample_world sample_pin))) 1 = 0"
  using init_on_bound_pin_succeeds [of "sample_world sample_pin" 0 0 1]
  by (simp add: sample_world_def sample_pin_def)

subsection \<open>Getter and setter pairs\<close>

text \<open>The direction and the drive mode come back from the getter as they were set.\<close>

lemma direction_roundtrip:
  assumes "d = Direction_INPUT \<or> d = Direction_OUTPUT"
    and "fst (DigitalInOut_set_direction self d s) = 0"
  shows "fst (DigitalInOut_get_direction self (snd (DigitalInOut_set_direction self d s)))
           = Some (Py_Member d)"
  using assms
  by (auto simp add: DigitalInOut_set_direction_def DigitalInOut_get_direction_def enum_defs
      as_long_defs generate_enum_def c_not_def c_eq_def port_dir_of_def Let_def DIGINOUT_PIN_def
      portio_set_port_direction_def writeport_def PyErr_SetString_def split: if_splits)

lemma drivemode_roundtrip:
  assumes "fst (DigitalInOut_set_drivemode self (Py_Enum ''parallel64.digitalio'' ''DriveMode'' m) s) = 0"
    and "direction (DIGINOUT_PIN s self) = PORT_DIR_FORWARD"
    and "0 \<le> m" and "m < 2 ^ 32"
  shows "fst (DigitalInOut_get_drivemode self
            (snd (DigitalInOut_set_drivemode self (Py_Enum ''parallel64.digitalio'' ''DriveMode'' m) s)))
           = Some (Py_Member (Py_Enum ''parallel64.digitalio'' ''DriveMode'' m))"
proof -
  have fits: "fits_long m"
    using assms(3,4) by (simp add: fits_long_def)
  have "drive_mode (DIGINOUT_PIN s self) = (word_of_int m :: 32 word)"
    using assms(1) fits
    by (simp add: DigitalInOut_set_drivemode_def PyLong_AsLong_def Let_def split: if_splits)
  moreover have "uint (word_of_int m :: 32 word) = m"
    using assms(3,4) by (simp add: uint_word_of_int_eq take_bit_int_eq_self)
  ultimately have "uint (drive_mode (DIGINOUT_PIN s self)) = m"
    by simp
  then show ?thesis
    using assms(2) fits
    by (simp add: DigitalInOut_set_drivemode_def DigitalInOut_get_drivemode_def PyLong_AsLong_def
        generate_enum_def Let_def DIGINOUT_PIN_def PyErr_SetString_def)
qed

text \<open>So does a pull of \<open>None\<close>.\<close>

lemma pull_none_roundtrip:
  assumes "fst (DigitalInOut_set_pull self None s) = 0"
  shows "fst (DigitalInOut_get_pull self (snd (DigitalInOut_set_pull self None s))) = Some Py_None"
  using assms
  by (cases "direction (DIGINOUT_PIN s self)")
    (auto simp add: DigitalInOut_set_pull_def DigitalInOut_get_pull_def Let_def split: if_splits)

text \<open>
  C7, at an input pin whose fixed pull is \<open>PULL_UP\<close>: setting the pull to the \<open>Pull\<close>
  member of that value succeeds and changes nothing, and the getter then returns the
  member of value \<open>!pull\<close>, which is 0 and not the value that was set.
\<close>

theorem set_pull_get_pull_differ:
  "DigitalInOut_set_pull 0 (Some (Py_Enum ''parallel64.digitalio'' ''Pull'' (uint PULL_UP)))
       (sample_world (sample_pin\<lparr>pull := PULL_UP\<rparr>))
     = (0, sample_world (sample_pin\<lparr>pull := PULL_UP\<rparr>))
   \<and> DigitalInOut_get_pull 0 (sample_world (sample_pin\<lparr>pull := PULL_UP\<rparr>))
     = (Some (Py_Member (Py_Enum ''parallel64.digitalio'' ''Pull'' 0)),
        sample_world (sample_pin\<lparr>pull := PULL_UP\<rparr>))
   \<and> uint PULL_UP \<noteq> 0"
  by (simp add: DigitalInOut_set_pull_def DigitalInOut_get_pull_def sample_defs generate_enum_def
      as_long_defs c_not_def Let_def)

subsection \<open>Drive mode\<close>

text \<open>What holds of C9: the getter refuses on an input pin, the setter refuses any other mode.\<close>

lemma get_drivemode_not_output:
  assumes "direction (DIGINOUT_PIN s self) \<noteq> PORT_DIR_FORWARD"
  shows "DigitalInOut_get_drivemode self s
           = (None, PyErr_SetString (AttributeError ''Not an output'') s)"
  using assms
  by (cases "direction (DIGINOUT_PIN s self)") (simp_all add: DigitalInOut_get_drivemode_def)

lemma set_drivemode_other_mode:
  assumes "fits_long (enum_value m)"
    and "word_of_int (enum_value m) \<noteq> drive_mode (DIGINOUT_PIN s self)"
  shows "DigitalInOut_set_drivemode self m s
           = (- 1, PyErr_SetString
                     (ValueError ''Pin drive modes cannot be changed from their default'') s)"
  using assms by (simp add: DigitalInOut_set_drivemode_def PyLong_AsLong_def Let_def)

text \<open>
  C9, at an input pin (direction \<open>PORT_DIR_REVERSE\<close>) whose fixed drive mode is push-pull:
  \<open>DigitalInOut_set_drivemode\<close> with that mode returns 0 and sets no error, although the
  getter on the same pin fails.
\<close>

theorem set_drivemode_ignores_direction:
  "direction (DIGINOUT_PIN (sample_world sample_pin) 0) = PORT_DIR_REVERSE
   \<and> DigitalInOut_set_drivemode 0 DriveMode_PUSH_PULL (sample_world sample_pin)
       = (0, sample_world sample_pin)
   \<and> fst (DigitalInOut_get_drivemode 0 (sample_world sample_pin)) = None"
  by (simp add: DigitalInOut_set_drivemode_def DigitalInOut_get_drivemode_def sample_defs
      enum_defs as_long_defs Let_def)

subsection \<open>Switching to output\<close>









end
